theory Spec2Isabelle
  imports Main "HOL-Library.AList"
begin

section \<open>JavaScript values\<close>

text \<open>
  The quest higher-order component of \<^verbatim>\<open>src/quest.js\<close> and the legacy
  \<^verbatim>\<open>withData\<close> component work on untyped JavaScript values: option objects,
  resolvers, props, store state.  Values are embedded as a datatype.  An object is the
  association list of its own properties in insertion order; members inherited from
  \<^verbatim>\<open>Object.prototype\<close> are not part of the embedding.  A function value is named:
  \<open>Never\<close> is the module's \<^verbatim>\<open>never = () => false\<close>, \<open>User n\<close> is the n-th
  function supplied by the application (a resolver method, a query mapper, a predicate).
\<close>

datatype fn = Never | User nat

datatype jsval =
    JUndefined
  | JNull
  | JBool bool
  | JNum int
  | JStr string
  | JFun fn
  | JObj "(string \<times> jsval) list"

datatype js_error =
    TypeError
  | ReferenceError string
  | InvariantViolation string

text \<open>The \<^verbatim>\<open>typeof\<close> operator; \<^verbatim>\<open>typeof null\<close> is \<^verbatim>\<open>'object'\<close>.\<close>

fun typeof :: "jsval \<Rightarrow> string" where
  "typeof JUndefined = ''undefined''"
| "typeof JNull = ''object''"
| "typeof (JBool b) = ''boolean''"
| "typeof (JNum n) = ''number''"
| "typeof (JStr s) = ''string''"
| "typeof (JFun f) = ''function''"
| "typeof (JObj ms) = ''object''"

text \<open>Truthiness, as \<^verbatim>\<open>!\<close>, \<^verbatim>\<open>&&\<close>, \<^verbatim>\<open>||\<close> and \<^verbatim>\<open>if\<close> test it.\<close>

fun truthy :: "jsval \<Rightarrow> bool" where
  "truthy JUndefined = False"
| "truthy JNull = False"
| "truthy (JBool b) = b"
| "truthy (JNum n) = (n \<noteq> 0)"
| "truthy (JStr s) = (s \<noteq> [])"
| "truthy (JFun f) = True"
| "truthy (JObj ms) = True"

text \<open>
  Reading a member.  On an object the own property, \<^verbatim>\<open>undefined\<close> when it has none; on
  another primitive \<^verbatim>\<open>undefined\<close>; on \<^verbatim>\<open>undefined\<close> and \<^verbatim>\<open>null\<close> the read throws a
  TypeError, which \<open>js_get\<close> returns as a value.
\<close>

fun member :: "jsval \<Rightarrow> string \<Rightarrow> jsval" where
  "member (JObj ms) n = (case map_of ms n of None \<Rightarrow> JUndefined | Some v \<Rightarrow> v)"
| "member v n = JUndefined"

definition js_get :: "jsval \<Rightarrow> string \<Rightarrow> js_error + jsval" where
  "js_get v n = (if v = JUndefined \<or> v = JNull then Inl TypeError else Inr (member v n))"

text \<open>Sequencing of computations that may throw: the first error ends the computation.\<close>

definition bindE :: "'e + 'a \<Rightarrow> ('a \<Rightarrow> 'e + 'b) \<Rightarrow> 'e + 'b" where
  "bindE m f = (case m of Inl e \<Rightarrow> Inl e | Inr v \<Rightarrow> f v)"

text \<open>The \<^verbatim>\<open>invariant\<close> package: throws with the message unless the condition holds.\<close>

definition invariant :: "bool \<Rightarrow> string \<Rightarrow> js_error + unit" where
  "invariant c msg = (if c then Inr () else Inl (InvariantViolation msg))"

text \<open>A destructuring default \<^verbatim>\<open>{ name = d }\<close>: \<open>d\<close> replaces an \<^verbatim>\<open>undefined\<close> member.\<close>

definition default_to :: "jsval \<Rightarrow> jsval \<Rightarrow> jsval" where
  "default_to d v = (if v = JUndefined then d else v)"

section \<open>Configuration: \<^verbatim>\<open>quest(options)\<close>\<close>

text \<open>
  What \<^verbatim>\<open>quest\<close> keeps of its options for the lifecycle of the component.  The options
  that only transform props at render time (mapData, mapToProps, defaultData,
  waitForData, mapDirect) and the \<^verbatim>\<open>branch\<close> argument play no part below.
\<close>

record config =
  key :: string
  resolver :: jsval
  query :: jsval
  fetchOnServer :: jsval
  fetchOnce :: jsval
  refetchWhen :: jsval

text \<open>
  \<^verbatim>\<open>quest\<close>, lines 17 to 37: the options are destructured with their defaults, then the
  three invariants run in order.  \<^verbatim>\<open>resolver.key\<close> on a \<^verbatim>\<open>null\<close> resolver (whose
  \<^verbatim>\<open>typeof\<close> is \<^verbatim>\<open>'object'\<close>) throws a TypeError.
\<close>

definition quest :: "jsval \<Rightarrow> js_error + config" where
  "quest opts =
     (if opts = JUndefined \<or> opts = JNull then Inl TypeError
      else
        bindE (invariant (typeof (member opts ''resolver'') = ''object'')
                 ''quests must be passed a resolver'') (\<lambda>_.
        bindE (js_get (member opts ''resolver'') ''key'') (\<lambda>k.
        bindE (invariant (typeof k = ''string'')
                 ''resolvers must contain a valid key'') (\<lambda>_.
        bindE (js_get (member opts ''resolver'') ''get'') (\<lambda>g.
        bindE (invariant (typeof g = ''function'')
                 ''resolvers must contain a get() method'') (\<lambda>_.
        (case k of
           JStr s \<Rightarrow>
             Inr \<lparr> key = s,
                   resolver = member opts ''resolver'',
                   query = default_to JNull (member opts ''query''),
                   fetchOnServer = default_to (JBool True) (member opts ''fetchOnServer''),
                   fetchOnce = member opts ''fetchOnce'',
                   refetchWhen = default_to (JFun Never) (member opts ''refetchWhen'') \<rparr>
         | _ \<Rightarrow> Inl (InvariantViolation ''resolvers must contain a valid key''))))))))"

text \<open>
  The resolver contract in the words of the specification: the resolver is an object
  that has a string \<^verbatim>\<open>key\<close> and a \<^verbatim>\<open>get\<close> function.
\<close>

definition conforming_resolver :: "jsval \<Rightarrow> bool" where
  "conforming_resolver r =
     (typeof r = ''object'' \<and> r \<noteq> JNull \<and>
      typeof (member r ''key'') = ''string'' \<and>
      typeof (member r ''get'') = ''function'')"

section \<open>The two store connections\<close>

text \<open>
  Modelled from the spec: \<^verbatim>\<open>defaultState\<close> is imported from \<^verbatim>\<open>./reducer\<close>, which is
  not among the sources.  The spec gives the canonical default record as
  \<^verbatim>\<open>{loading: false, completed: false, error: null, data: null}\<close>.
\<close>

definition defaultState :: jsval where
  "defaultState =
     JObj [(''loading'', JBool False), (''completed'', JBool False),
           (''error'', JNull), (''data'', JNull)]"

text \<open>
  Lines 41 to 44, the first \<^verbatim>\<open>connect\<close>:
  \<^verbatim>\<open>state => ({ [key]: state._data_[key] || defaultState })\<close>.
\<close>

definition mapState_first :: "string \<Rightarrow> jsval \<Rightarrow> js_error + jsval" where
  "mapState_first k state =
     bindE (js_get state ''_data_'') (\<lambda>d.
     bindE (js_get d k) (\<lambda>v.
     Inr (JObj [(k, if truthy v then v else defaultState)])))"

text \<open>
  Lines 130 to 132, the second \<^verbatim>\<open>connect\<close>:
  \<^verbatim>\<open>state => ({ [key]: state._data_[key] || initialState })\<close>.
  The module imports \<^verbatim>\<open>defaultState\<close> only and declares no \<^verbatim>\<open>initialState\<close>, so
  evaluating the right operand of \<^verbatim>\<open>||\<close> throws a ReferenceError.  The operand is
  evaluated only when the left one is falsy.
\<close>

definition mapState_second :: "string \<Rightarrow> jsval \<Rightarrow> js_error + jsval" where
  "mapState_second k state =
     bindE (js_get state ''_data_'') (\<lambda>d.
     bindE (js_get d k) (\<lambda>v.
     if truthy v then Inr (JObj [(k, v)]) else Inl (ReferenceError ''initialState'')))"

section \<open>Caller-supplied functions, the store's dispatch, promises\<close>

text \<open>
  The behaviour of the application's functions is a parameter: \<open>calls h n args\<close> is what
  the n-th function returns on \<open>args\<close>.  The store's \<^verbatim>\<open>dispatch\<close> and the action
  creators \<^verbatim>\<open>startQuest\<close> and \<^verbatim>\<open>resolveQuest\<close> of \<^verbatim>\<open>./actions\<close> are not among the
  sources.  A dispatched action is recorded as the call that built it, and what
  \<^verbatim>\<open>dispatch\<close> hands back, given the actions dispatched before, is the parameter
  \<open>dispatch_returns\<close>: a promise, or a value on which the guard
  \<^verbatim>\<open>r && r.then\<close> fails.
\<close>

datatype fetcher =
    BoundGet fn jsval
  | Direct fn

datatype action =
    StartQuest string fetcher
  | ResolveQuest string jsval

datatype promise =
    Dispatched nat
  | Chained promise string

datatype dval =
    Plain jsval
  | Prom promise

datatype outcome = Fulfilled | Rejected

record host =
  calls :: "nat \<Rightarrow> jsval list \<Rightarrow> jsval"
  dispatch_returns :: "action list \<Rightarrow> action \<Rightarrow> dval"

text \<open>
  The mutable state outside a component: the module-level \<^verbatim>\<open>promises\<close> object, the
  log of dispatched actions, and the fulfilment reactions attached by \<^verbatim>\<open>then\<close>
  (the promise waited for, and the key whose entry the reaction deletes).
  \<open>Chained r k\<close> is the promise \<^verbatim>\<open>r.then(() => { delete promises[k]; })\<close>.
\<close>

record world =
  promises :: "string \<Rightarrow> promise option"
  dispatched :: "action list"
  reactions :: "(promise \<times> string) list"

text \<open>The instance field \<^verbatim>\<open>this.fetched\<close>.\<close>

record component =
  fetched :: bool

fun apply_fn :: "host \<Rightarrow> fn \<Rightarrow> jsval list \<Rightarrow> jsval" where
  "apply_fn h Never args = JBool False"
| "apply_fn h (User n) args = calls h n args"

text \<open>A call \<^verbatim>\<open>f(args)\<close>: a TypeError unless \<open>f\<close> is a function.\<close>

definition call :: "host \<Rightarrow> jsval \<Rightarrow> jsval list \<Rightarrow> js_error + jsval" where
  "call h f args = (case f of JFun g \<Rightarrow> Inr (apply_fn h g args) | _ \<Rightarrow> Inl TypeError)"

text \<open>The operator \<^verbatim>\<open>a || b\<close> on values.\<close>

definition js_or :: "jsval \<Rightarrow> jsval \<Rightarrow> jsval" where
  "js_or a b = (if truthy a then a else b)"

definition dispatch :: "host \<Rightarrow> action \<Rightarrow> world \<Rightarrow> dval \<times> world" where
  "dispatch h a w = (dispatch_returns h (dispatched w) a, w\<lparr>dispatched := dispatched w @ [a]\<rparr>)"

text \<open>
  A promise settles.  \<^verbatim>\<open>then\<close> was given a fulfilment callback only, so the reactions
  waiting for the promise run when it is fulfilled and are dropped when it is rejected.
  Each reaction is \<^verbatim>\<open>delete promises[k]\<close>.
\<close>

definition settle :: "promise \<Rightarrow> outcome \<Rightarrow> world \<Rightarrow> world" where
  "settle p out w =
     w\<lparr> promises :=
          (case out of
             Fulfilled \<Rightarrow>
               fold (\<lambda>(q, k) m. if q = p then m(k := None) else m) (reactions w) (promises w)
           | Rejected \<Rightarrow> promises w),
        reactions := filter (\<lambda>(q, k). q \<noteq> p) (reactions w) \<rparr>"



section \<open>The first connection's \<^verbatim>\<open>updateData\<close>\<close>

text \<open>
  Lines 47 to 51: \<^verbatim>\<open>typeof query === 'function' ? query(nextProps || props) : query\<close>,
  where \<^verbatim>\<open>props\<close> are the props the connection itself received (\<open>own\<close>).
\<close>

definition query_for :: "config \<Rightarrow> host \<Rightarrow> jsval \<Rightarrow> jsval \<Rightarrow> jsval" where
  "query_for cfg h own nextProps =
     (case query cfg of
        JFun q \<Rightarrow> apply_fn h q [js_or nextProps own]
      | v \<Rightarrow> v)"

text \<open>
  Lines 46 to 58.  \<open>BoundGet g options\<close> is \<^verbatim>\<open>resolver.get.bind(null, options)\<close> and
  \<open>Direct f\<close> is the function \<^verbatim>\<open>next\<close> itself.
\<close>

definition updateData ::
  "config \<Rightarrow> host \<Rightarrow> jsval \<Rightarrow> jsval \<Rightarrow> jsval \<Rightarrow> world \<Rightarrow> js_error + dval \<times> world" where
  "updateData cfg h own next nextProps w =
     (let options = JObj [(''query'', query_for cfg h own nextProps)] in
      if next = JUndefined then
        bindE (js_get (resolver cfg) ''get'') (\<lambda>g.
          case g of
            JFun f \<Rightarrow> Inr (dispatch h (StartQuest (key cfg) (BoundGet f options)) w)
          | _ \<Rightarrow> Inl TypeError)
      else
        (case next of
           JFun f \<Rightarrow> Inr (dispatch h (StartQuest (key cfg) (Direct f)) w)
         | _ \<Rightarrow> Inr (dispatch h (ResolveQuest (key cfg) next) w)))"

section \<open>The lifecycle of the component\<close>

text \<open>
  Lines 65 to 88, \<^verbatim>\<open>this.canFetchOnce\<close>.  \<open>props\<close> is \<^verbatim>\<open>this.props\<close>.  The function
  returns \<^verbatim>\<open>false\<close>, \<^verbatim>\<open>true\<close>, \<^verbatim>\<open>!!fetchOnce\<close>, or falls off its end
  (\<^verbatim>\<open>undefined\<close>) when the predicate is falsy.  \<^verbatim>\<open>||\<close> evaluates its right operand
  only when the left one is falsy.
\<close>

definition canFetchOnce ::
  "config \<Rightarrow> host \<Rightarrow> component \<Rightarrow> jsval \<Rightarrow> jsval \<Rightarrow> js_error + jsval" where
  "canFetchOnce cfg h this props nextProps =
     bindE (if fetched this then Inr True
            else bindE (js_get props (key cfg)) (\<lambda>rec.
                 bindE (js_get rec ''ready'') (\<lambda>v. Inr (truthy v)))) (\<lambda>stop.
     if stop then Inr (JBool False)
     else
       bindE (if \<not> truthy (fetchOnce cfg) then Inr True
              else bindE (js_get props (key cfg)) (\<lambda>rec.
                   bindE (js_get rec ''error'') (\<lambda>v. Inr (truthy v)))) (\<lambda>go.
       if go then Inr (JBool True)
       else if typeof (fetchOnce cfg) \<noteq> ''function'' then Inr (JBool (truthy (fetchOnce cfg)))
       else
         bindE (call h (fetchOnce cfg) [js_or nextProps props]) (\<lambda>v.
         if truthy v then Inr (JBool True) else Inr JUndefined)))"

text \<open>
  Lines 62 to 105, \<^verbatim>\<open>componentWillMount\<close>: the value returned, the instance and the
  world afterwards.  An exception can only be thrown before the dispatch.
\<close>

definition componentWillMount ::
  "config \<Rightarrow> host \<Rightarrow> jsval \<Rightarrow> jsval \<Rightarrow> component \<Rightarrow> world
     \<Rightarrow> js_error + (dval \<times> component) \<times> world" where
  "componentWillMount cfg h own props this w =
     bindE (if truthy (fetchOnServer cfg)
            then bindE (canFetchOnce cfg h (this\<lparr>fetched := False\<rparr>) props JUndefined)
                   (\<lambda>c. Inr (truthy c))
            else Inr False) (\<lambda>fetch.
     if fetch then
       bindE (updateData cfg h own JUndefined JUndefined w) (\<lambda>(r, w1).
         Inr ((r, this\<lparr>fetched := False\<rparr>),
              (case r of
                 Prom p \<Rightarrow>
                   w1\<lparr> promises := (promises w1)(key cfg \<mapsto> Chained p (key cfg)),
                       reactions := reactions w1 @ [(p, key cfg)] \<rparr>
               | Plain v \<Rightarrow> w1)))
     else
       bindE (js_get props (key cfg)) (\<lambda>rec.
       bindE (js_get rec ''loading'') (\<lambda>l.
         Inr ((if truthy l
               then (case promises w (key cfg) of
                       Some p \<Rightarrow> Prom p
                     | None \<Rightarrow> Plain JUndefined)
               else Plain JUndefined,
               this\<lparr>fetched := False\<rparr>), w))))"

text \<open>Lines 107 to 112, \<^verbatim>\<open>componentDidMount\<close>.\<close>

definition componentDidMount ::
  "config \<Rightarrow> host \<Rightarrow> jsval \<Rightarrow> jsval \<Rightarrow> component \<Rightarrow> world
     \<Rightarrow> js_error + component \<times> world" where
  "componentDidMount cfg h own props this w =
     (if truthy (fetchOnServer cfg) then Inr (this, w)
      else
        bindE (canFetchOnce cfg h this props JUndefined) (\<lambda>c.
        if truthy c then
          bindE (updateData cfg h own JUndefined JUndefined w) (\<lambda>(r, w1).
            Inr (this\<lparr>fetched := True\<rparr>, w1))
        else Inr (this, w)))"

text \<open>Lines 114 to 121, \<^verbatim>\<open>componentWillReceiveProps\<close>.\<close>

definition componentWillReceiveProps ::
  "config \<Rightarrow> host \<Rightarrow> jsval \<Rightarrow> jsval \<Rightarrow> jsval \<Rightarrow> component \<Rightarrow> world
     \<Rightarrow> js_error + component \<times> world" where
  "componentWillReceiveProps cfg h own props nextProps this w =
     bindE (canFetchOnce cfg h this props nextProps) (\<lambda>c.
     bindE (if truthy c then Inr True
            else bindE (call h (refetchWhen cfg) [props, nextProps]) (\<lambda>v. Inr (truthy v)))
       (\<lambda>go.
     if go then
       bindE (updateData cfg h own JUndefined nextProps w) (\<lambda>(r, w1).
         Inr (this\<lparr>fetched := True\<rparr>, w1))
     else Inr (this, w)))"

section \<open>Programmatic methods\<close>

text \<open>
  \<^verbatim>\<open>Object.keys\<close> on a resolver: the names of its own properties; a TypeError on
  \<^verbatim>\<open>undefined\<close> and \<^verbatim>\<open>null\<close>.  (A string's index keys do not arise: \<^verbatim>\<open>quest\<close> admits
  resolvers of type object only.)
\<close>

definition object_keys :: "jsval \<Rightarrow> js_error + string list" where
  "object_keys v =
     (case v of
        JObj ms \<Rightarrow> Inr (map fst ms)
      | JUndefined \<Rightarrow> Inl TypeError
      | JNull \<Rightarrow> Inl TypeError
      | _ \<Rightarrow> Inr [])"

text \<open>Object spread \<^verbatim>\<open>{...v}\<close> of an object or of \<^verbatim>\<open>undefined\<close>/\<^verbatim>\<open>null\<close>.\<close>

fun spread :: "jsval \<Rightarrow> (string \<times> jsval) list" where
  "spread (JObj ms) = ms"
| "spread v = []"

text \<open>
  A member of the key prop built by \<^verbatim>\<open>withProps\<close>: a field copied from the record, or
  the closure
  \<^verbatim>\<open>query => props.updateData(resolver[method]({...query, data: props[key].data}))\<close>.
\<close>

datatype prop_member =
    Field jsval
  | Method string

text \<open>
  Lines 134 to 150: the object that the mapper given to \<^verbatim>\<open>withProps\<close> returns.  The
  filter's parameter is the property name (\<^verbatim>\<open>key => typeof key === 'function'\<close>);
  the computed property \<^verbatim>\<open>[key]\<close> of the reducer is the resolver's key.
\<close>

definition programmatic_methods ::
  "config \<Rightarrow> jsval \<Rightarrow> js_error + (string \<times> (string \<times> prop_member) list) list" where
  "programmatic_methods cfg props =
     bindE (object_keys (resolver cfg)) (\<lambda>names.
     Inr (fold (\<lambda>method accProps.
                  AList.update (key cfg)
                    (AList.update method (Method method)
                       (map (\<lambda>(n, v). (n, Field v)) (spread (member props (key cfg)))))
                    accProps)
            (filter (\<lambda>name. typeof (JStr name) = ''function'') names) []))"

section \<open>The legacy \<^verbatim>\<open>withData\<close> component\<close>

text \<open>
  \<^verbatim>\<open>capitalize\<close>, lines 83 to 85:
  \<^verbatim>\<open>string[0].toUpperCase() + string.slice(1)\<close>.  \<^verbatim>\<open>string[0]\<close> of the empty string
  is \<^verbatim>\<open>undefined\<close> and the method call on it throws a TypeError.  The built-in
  \<^verbatim>\<open>toUpperCase\<close> is the parameter \<open>up\<close>, applied to the one-character string.
\<close>

definition capitalize :: "(string \<Rightarrow> string) \<Rightarrow> string \<Rightarrow> js_error + string" where
  "capitalize up s = (case s of [] \<Rightarrow> Inl TypeError | c # cs \<Rightarrow> Inr (up [c] @ cs))"

text \<open>\<^verbatim>\<open>toUpperCase\<close> on ASCII text, for evaluating examples.\<close>

definition ascii_toUpperCase :: "string \<Rightarrow> string" where
  "ascii_toUpperCase s =
     map (\<lambda>c. if 97 \<le> (of_char c :: nat) \<and> (of_char c :: nat) \<le> 122
               then char_of (of_char c - (32 :: nat)) else c) s"

text \<open>
  What a prop built by \<^verbatim>\<open>withData\<close> does when called: a resolver method, or
  \<^verbatim>\<open>props.update()\<close>.
\<close>

datatype legacy_member =
    CallsResolver string
  | CallsUpdate

text \<open>
  Lines 59 to 72: the reduction over \<^verbatim>\<open>Object.keys(resolver)\<close> with the computed name
  \<^verbatim>\<open>`${method}${capitalize(key)}`\<close>.
\<close>

definition method_props ::
  "(string \<Rightarrow> string) \<Rightarrow> string list \<Rightarrow> string
     \<Rightarrow> js_error + (string \<times> legacy_member) list" where
  "method_props up methods k =
     fold (\<lambda>method result.
             bindE result (\<lambda>acc.
             bindE (capitalize up k) (\<lambda>ck.
             Inr (AList.update (method @ ck) (CallsResolver method) acc))))
       methods (Inr [])"

text \<open>Lines 73 to 76: \<^verbatim>\<open>{ [`get${capitalize(key)}`]: () => props.update() }\<close>.\<close>

definition get_prop ::
  "(string \<Rightarrow> string) \<Rightarrow> string \<Rightarrow> js_error + (string \<times> legacy_member) list" where
  "get_prop up k = bindE (capitalize up k) (\<lambda>ck. Inr [(''get'' @ ck, CallsUpdate)])"

text \<open>
  The props that the two \<^verbatim>\<open>withProps\<close> steps of \<^verbatim>\<open>withData\<close> add for a resolver with
  the method names \<open>methods\<close> and the string key \<open>k\<close>: the second step's prop
  replaces a prop of the same name of the first.
\<close>

definition withData_props ::
  "(string \<Rightarrow> string) \<Rightarrow> string list \<Rightarrow> string
     \<Rightarrow> js_error + (string \<times> legacy_member) list" where
  "withData_props up methods k =
     bindE (method_props up methods k) (\<lambda>ps.
     bindE (get_prop up k) (\<lambda>g.
     Inr (fold (\<lambda>(n, v). AList.update n v) g ps)))"

section \<open>Observations and example inputs\<close>

text \<open>
  The log of dispatched actions after a step, or the exception the step threw; and the
  value a step returned.
\<close>

definition log_after :: "js_error + 'a \<times> world \<Rightarrow> js_error + action list" where
  "log_after res = (case res of Inl e \<Rightarrow> Inl e | Inr (x, w) \<Rightarrow> Inr (dispatched w))"

definition entry_after :: "string \<Rightarrow> js_error + 'a \<times> world \<Rightarrow> js_error + promise option" where
  "entry_after k res = (case res of Inl e \<Rightarrow> Inl e | Inr (x, w) \<Rightarrow> Inr (promises w k))"

definition returned :: "js_error + ('r \<times> component) \<times> world \<Rightarrow> js_error + 'r" where
  "returned res = (case res of Inl e \<Rightarrow> Inl e | Inr ((r, c), w) \<Rightarrow> Inr r)"

text \<open>
  The resolver of the README, \<^verbatim>\<open>{ key: 'posts', get() {...}, create() {...} }\<close>, and
  the options \<^verbatim>\<open>{ resolver: postsResolver }\<close>.
\<close>

definition postsResolver :: jsval where
  "postsResolver =
     JObj [(''key'', JStr ''posts''), (''get'', JFun (User 0)), (''create'', JFun (User 1))]"

definition posts_options :: jsval where
  "posts_options = JObj [(''resolver'', postsResolver)]"

definition posts_config :: config where
  "posts_config =
     \<lparr> key = ''posts'', resolver = postsResolver, query = JNull,
       fetchOnServer = JBool True, fetchOnce = JUndefined, refetchWhen = JFun Never \<rparr>"

text \<open>
  A host whose functions return \<^verbatim>\<open>undefined\<close> and whose dispatch hands back a new
  promise each time, numbered by the count of earlier dispatches.
\<close>

definition fresh_host :: host where
  "fresh_host =
     \<lparr> calls = (\<lambda>n args. JUndefined),
       dispatch_returns = (\<lambda>log a. Prom (Dispatched (length log))) \<rparr>"

definition empty_world :: world where
  "empty_world = \<lparr> promises = (\<lambda>k. None), dispatched = [], reactions = [] \<rparr>"

text \<open>The record of a key whose fetch is in flight: the default record with \<^verbatim>\<open>loading: true\<close>.\<close>

definition loading_record :: jsval where
  "loading_record =
     JObj [(''loading'', JBool True), (''completed'', JBool False),
           (''error'', JNull), (''data'', JNull)]"

text \<open>The world after one fetch for \<^verbatim>\<open>'posts'\<close> was dispatched and registered.\<close>

definition inflight_world :: world where
  "inflight_world =
     \<lparr> promises = (\<lambda>k. if k = ''posts'' then Some (Chained (Dispatched 0) ''posts'') else None),
       dispatched = [StartQuest ''posts'' (BoundGet (User 0) (JObj [(''query'', JNull)]))],
       reactions = [(Dispatched 0, ''posts'')] \<rparr>"



text \<open>
  The options \<^verbatim>\<open>{ resolver: postsResolver, fetchOnServer: false }\<close> and
  \<^verbatim>\<open>{ resolver: postsResolver, fetchOnce: props => ... }\<close> as configurations.
\<close>

definition deferred_config :: config where
  "deferred_config = posts_config\<lparr>fetchOnServer := JBool False\<rparr>"


section \<open>Properties\<close>

lemma bindE_simps:
  "bindE (Inl e) f = Inl e"
  "bindE (Inr v) f = f v"
  by (simp_all add: bindE_def)

lemma typeof_string: "(typeof v = ''string'') = (\<exists>s. v = JStr s)"
  by (cases v) simp_all

lemma typeof_function: "(typeof v = ''function'') = (\<exists>f. v = JFun f)"
  by (cases v) simp_all

lemma typeof_object: "(typeof v = ''object'') = (v = JNull \<or> (\<exists>ms. v = JObj ms))"
  by (cases v) simp_all

lemma quest_posts: "quest posts_options = Inr posts_config"
  by (simp add: quest_def posts_options_def posts_config_def postsResolver_def
      invariant_def js_get_def bindE_def default_to_def)

subsection \<open>Configuration\<close>

text \<open>
  Claim C4.  \<^verbatim>\<open>quest(options)\<close> fails at configuration time exactly when the resolver
  it is given is not an object, has no string \<^verbatim>\<open>key\<close> or has no \<^verbatim>\<open>get\<close> function
  (or when there are no options to destructure); with a conforming resolver it returns a
  configuration.  The lifecycle functions take a configuration, so no quest starts
  before \<^verbatim>\<open>quest\<close> has returned one.
\<close>

theorem quest_contract:
  "(\<exists>cfg. quest opts = Inr cfg) =
     (opts \<noteq> JUndefined \<and> opts \<noteq> JNull \<and> conforming_resolver (member opts ''resolver''))"
  by (auto simp: quest_def conforming_resolver_def bindE_def invariant_def js_get_def
        typeof_string typeof_function typeof_object
        split: sum.splits jsval.splits if_splits)

theorem quest_contract_witness:
  "\<exists>cfg. quest (JObj [(''resolver'',
             JObj [(''key'', JStr ''posts''), (''get'', JFun (User 0))])]) = Inr cfg"
  using quest_contract [of "JObj [(''resolver'',
             JObj [(''key'', JStr ''posts''), (''get'', JFun (User 0))])]"]
  by (simp add: conforming_resolver_def)

subsection \<open>Store connections\<close>

text \<open>
  Claim C3.  On a store in which no key was ever initialised, the first connection
  yields the default record for every key, and the second connection throws a
  ReferenceError: its fallback is the undeclared \<^verbatim>\<open>initialState\<close>.
\<close>

theorem second_connection_throws:
  "mapState_first k (JObj [(''_data_'', JObj [])]) = Inr (JObj [(k, defaultState)]) \<and>
   mapState_second k (JObj [(''_data_'', JObj [])]) = Inl (ReferenceError ''initialState'')"
  by (simp add: mapState_first_def mapState_second_def js_get_def bindE_def)

subsection \<open>Facts about configurations and records\<close>

lemma quest_valid:
  assumes "quest opts = Inr cfg"
  shows "\<exists>ms g. resolver cfg = JObj ms \<and> member (resolver cfg) ''get'' = JFun g"
  using assms
  by (auto simp: quest_def bindE_def invariant_def js_get_def typeof_string typeof_function
      typeof_object split: if_splits sum.splits jsval.splits)

lemma updateData_start:
  assumes "resolver cfg = JObj ms" "member (resolver cfg) ''get'' = JFun g"
  shows "updateData cfg h own JUndefined nextProps w =
     Inr (dispatch h (StartQuest (key cfg) (BoundGet g (JObj [(''query'', query_for cfg h own nextProps)]))) w)"
  using assms by (simp add: updateData_def js_get_def bindE_def)

lemma member_obj_get:
  assumes "member props k = JObj rec"
  shows "js_get props k = Inr (JObj rec)"
  using assms by (cases props) (simp_all add: js_get_def)

lemma js_get_obj: "js_get (JObj rec) n = Inr (member (JObj rec) n)"
  by (simp add: js_get_def)

lemma canFetchOnce_record:
  assumes "member props (key cfg) = JObj rec"
  shows "canFetchOnce cfg h this props nextProps =
     Inr (if fetched this \<or> truthy (member (JObj rec) ''ready'') then JBool False
          else if \<not> truthy (fetchOnce cfg) \<or> truthy (member (JObj rec) ''error'') then JBool True
          else if typeof (fetchOnce cfg) \<noteq> ''function'' then JBool (truthy (fetchOnce cfg))
          else if truthy (case fetchOnce cfg of JFun f \<Rightarrow> apply_fn h f [js_or nextProps props] | _ \<Rightarrow> JUndefined)
               then JBool True else JUndefined)"
  using member_obj_get [OF assms]
  by (cases "fetchOnce cfg")
     (simp_all add: canFetchOnce_def bindE_def js_get_obj call_def del: member.simps)

lemma quest_deferred:
  "quest (JObj [(''resolver'', postsResolver), (''fetchOnServer'', JBool False)]) = Inr deferred_config"
  by (simp add: quest_def deferred_config_def posts_config_def postsResolver_def
      invariant_def js_get_def bindE_def default_to_def)


subsection \<open>\<^verbatim>\<open>updateData\<close>\<close>



subsection \<open>When a fetch is dispatched\<close>

text \<open>
  Claim C8.  When \<^verbatim>\<open>fetchOnServer\<close> is falsy, \<^verbatim>\<open>componentWillMount\<close> leaves the world
  as it is (no dispatch); \<^verbatim>\<open>componentDidMount\<close> dispatches the fetch exactly when
  \<^verbatim>\<open>canFetchOnce()\<close> is truthy; and \<^verbatim>\<open>componentWillReceiveProps\<close> dispatches a fetch
  exactly when \<^verbatim>\<open>canFetchOnce(nextProps)\<close> or \<^verbatim>\<open>refetchWhen(props, nextProps)\<close> is
  truthy.  The props hold a record under the key, as the first connection provides, and
  \<^verbatim>\<open>refetchWhen\<close> is a function.
\<close>

theorem deferred_fetch:
  assumes "quest opts = Inr cfg"
      and "\<not> truthy (fetchOnServer cfg)"
      and "member props (key cfg) = JObj rec"
      and "refetchWhen cfg = JFun rw"
  shows "\<exists>r g c c' v.
     member (resolver cfg) ''get'' = JFun g \<and>
     componentWillMount cfg h own props this w = Inr ((r, this\<lparr>fetched := False\<rparr>), w) \<and>
     canFetchOnce cfg h this props JUndefined = Inr c \<and>
     log_after (componentDidMount cfg h own props this w) =
       Inr (if truthy c
            then dispatched w @
              [StartQuest (key cfg) (BoundGet g (JObj [(''query'', query_for cfg h own JUndefined)]))]
            else dispatched w) \<and>
     canFetchOnce cfg h this props nextProps = Inr c' \<and>
     call h (refetchWhen cfg) [props, nextProps] = Inr v \<and>
     log_after (componentWillReceiveProps cfg h own props nextProps this w) =
       Inr (if truthy c' \<or> truthy v
            then dispatched w @
              [StartQuest (key cfg) (BoundGet g (JObj [(''query'', query_for cfg h own nextProps)]))]
            else dispatched w)"
proof -
  from quest_valid [OF assms(1)] obtain ms g
    where r: "resolver cfg = JObj ms" and g: "member (resolver cfg) ''get'' = JFun g"
    by blast
  note upd = updateData_start [OF r g]
  note get = member_obj_get [OF assms(3)]
  obtain c where c: "canFetchOnce cfg h this props JUndefined = Inr c"
    using canFetchOnce_record [OF assms(3)] by blast
  obtain c' where c': "canFetchOnce cfg h this props nextProps = Inr c'"
    using canFetchOnce_record [OF assms(3)] by blast
  have v: "call h (refetchWhen cfg) [props, nextProps] = Inr (apply_fn h rw [props, nextProps])"
    by (simp add: call_def assms(4))
  have wm: "\<exists>r. componentWillMount cfg h own props this w = Inr ((r, this\<lparr>fetched := False\<rparr>), w)"
    using assms(2) get by (simp add: componentWillMount_def bindE_def js_get_obj del: member.simps)
  have dm: "log_after (componentDidMount cfg h own props this w) =
       Inr (if truthy c
            then dispatched w @
              [StartQuest (key cfg) (BoundGet g (JObj [(''query'', query_for cfg h own JUndefined)]))]
            else dispatched w)"
    using assms(2) c by (simp add: componentDidMount_def bindE_def upd dispatch_def log_after_def)
  have rp: "log_after (componentWillReceiveProps cfg h own props nextProps this w) =
       Inr (if truthy c' \<or> truthy (apply_fn h rw [props, nextProps])
            then dispatched w @
              [StartQuest (key cfg) (BoundGet g (JObj [(''query'', query_for cfg h own nextProps)]))]
            else dispatched w)"
    using c' v by (simp add: componentWillReceiveProps_def bindE_def upd dispatch_def log_after_def)
  from g wm c dm c' v rp show ?thesis by blast
qed

theorem deferred_fetch_witness:
  "returned (componentWillMount deferred_config fresh_host (JObj [])
       (JObj [(''posts'', defaultState)]) \<lparr>fetched = False\<rparr> empty_world) = Inr (Plain JUndefined) \<and>
   log_after (componentWillMount deferred_config fresh_host (JObj [])
       (JObj [(''posts'', defaultState)]) \<lparr>fetched = False\<rparr> empty_world) = Inr [] \<and>
   log_after (componentDidMount deferred_config fresh_host (JObj [])
       (JObj [(''posts'', defaultState)]) \<lparr>fetched = False\<rparr> empty_world) =
     Inr [StartQuest ''posts'' (BoundGet (User 0) (JObj [(''query'', JNull)]))] \<and>
   log_after (componentWillReceiveProps deferred_config fresh_host (JObj [])
       (JObj [(''posts'', defaultState)]) (JObj [(''posts'', defaultState)])
       \<lparr>fetched = True\<rparr> empty_world) = Inr []"
proof -
  have fs: "\<not> truthy (fetchOnServer deferred_config)"
    by (simp add: deferred_config_def posts_config_def)
  have rec: "member (JObj [(''posts'', defaultState)]) (key deferred_config) =
      JObj [(''loading'', JBool False), (''completed'', JBool False),
           (''error'', JNull), (''data'', JNull)]"
    by (simp add: deferred_config_def posts_config_def defaultState_def)
  have rw: "refetchWhen deferred_config = JFun Never"
    by (simp add: deferred_config_def posts_config_def)
  note th = deferred_fetch [OF quest_deferred fs rec rw]
  show ?thesis
    using th [of fresh_host "JObj []" "\<lparr>fetched = False\<rparr>" empty_world "JObj [(''posts'', defaultState)]"]
      th [of fresh_host "JObj []" "\<lparr>fetched = True\<rparr>" empty_world "JObj [(''posts'', defaultState)]"]
    by (simp add: componentWillMount_def componentDidMount_def componentWillReceiveProps_def
        canFetchOnce_def updateData_def dispatch_def query_for_def js_get_def bindE_def
        deferred_config_def posts_config_def postsResolver_def fresh_host_def empty_world_def
        defaultState_def log_after_def returned_def call_def js_or_def)
qed




subsection \<open>The registry of promises\<close>




lemmas scenario_defs =
  componentWillMount_def canFetchOnce_def updateData_def dispatch_def query_for_def
  js_get_def bindE_def posts_config_def postsResolver_def fresh_host_def
  inflight_world_def empty_world_def loading_record_def defaultState_def
  log_after_def returned_def entry_after_def



text \<open>
  The deletion is the fulfilment callback of a one-argument \<^verbatim>\<open>then\<close>: were the promise
  returned by the dispatch rejected, the entry registered by the mount would stay.  The
  removal after a failed fetch rests on \<^verbatim>\<open>startQuest\<close> capturing the failure.
\<close>

lemma rejected_dispatch_keeps_entry:
  "\<exists>c w'. componentWillMount posts_config fresh_host (JObj [])
       (JObj [(''posts'', defaultState)]) \<lparr>fetched = False\<rparr> empty_world =
         Inr ((Prom (Dispatched 0), c), w') \<and>
       promises w' ''posts'' = Some (Chained (Dispatched 0) ''posts'') \<and>
       promises (settle (Dispatched 0) Rejected w') ''posts'' =
         Some (Chained (Dispatched 0) ''posts'')"
  by (simp add: scenario_defs settle_def)

subsection \<open>Mounting while a fetch is in flight\<close>

text \<open>
  Claim C1.  The gate of the mount-time fetch does not look at the record's
  \<^verbatim>\<open>loading\<close> member or at the registry: with a truthy \<^verbatim>\<open>fetchOnServer\<close>, a falsy
  \<^verbatim>\<open>fetchOnce\<close> and a record without a truthy \<^verbatim>\<open>ready\<close> member,
  \<^verbatim>\<open>componentWillMount\<close> dispatches \<^verbatim>\<open>startQuest\<close> and returns what the dispatch
  returned, whatever is in flight.
\<close>

theorem fetch_gate_ignores_inflight:
  assumes "quest opts = Inr cfg"
      and "truthy (fetchOnServer cfg)"
      and "\<not> truthy (fetchOnce cfg)"
      and "member props (key cfg) = JObj rec"
      and "\<not> truthy (member (JObj rec) ''ready'')"
  shows "\<exists>g. member (resolver cfg) ''get'' = JFun g \<and>
     log_after (componentWillMount cfg h own props this w) =
       Inr (dispatched w @
         [StartQuest (key cfg) (BoundGet g (JObj [(''query'', query_for cfg h own JUndefined)]))]) \<and>
     returned (componentWillMount cfg h own props this w) =
       Inr (dispatch_returns h (dispatched w)
         (StartQuest (key cfg) (BoundGet g (JObj [(''query'', query_for cfg h own JUndefined)]))))"
proof -
  from quest_valid [OF assms(1)] obtain ms g
    where r: "resolver cfg = JObj ms" and g: "member (resolver cfg) ''get'' = JFun g"
    by blast
  note upd = updateData_start [OF r g]
  have c: "canFetchOnce cfg h (this\<lparr>fetched := False\<rparr>) props JUndefined = Inr (JBool True)"
    using canFetchOnce_record [OF assms(4), of h "this\<lparr>fetched := False\<rparr>" JUndefined] assms(3,5)
    by simp
  have "log_after (componentWillMount cfg h own props this w) =
       Inr (dispatched w @
         [StartQuest (key cfg) (BoundGet g (JObj [(''query'', query_for cfg h own JUndefined)]))])"
    using assms(2) c
    by (cases "dispatch_returns h (dispatched w)
          (StartQuest (key cfg) (BoundGet g (JObj [(''query'', query_for cfg h own JUndefined)])))")
       (simp_all add: componentWillMount_def bindE_simps upd dispatch_def log_after_def)
  moreover have "returned (componentWillMount cfg h own props this w) =
       Inr (dispatch_returns h (dispatched w)
         (StartQuest (key cfg) (BoundGet g (JObj [(''query'', query_for cfg h own JUndefined)]))))"
    using assms(2) c
    by (simp add: componentWillMount_def bindE_simps upd dispatch_def returned_def)
  ultimately show ?thesis using g by blast
qed

text \<open>
  Two components for the key \<^verbatim>\<open>'posts'\<close> mount one after the other with the default
  options; the second sees the record loading and the first one's promise registered.
  Both dispatch \<^verbatim>\<open>startQuest\<close>: the log holds two fetches, the second requester is
  handed another promise than the first, and the registered entry is overwritten.
\<close>

theorem second_mount_dispatches_again:
  "bindE (componentWillMount posts_config fresh_host (JObj [])
            (JObj [(''posts'', defaultState)]) \<lparr>fetched = False\<rparr> empty_world)
     (\<lambda>((r1, c1), w1).
   bindE (componentWillMount posts_config fresh_host (JObj [])
            (JObj [(''posts'', loading_record)]) \<lparr>fetched = False\<rparr> w1)
     (\<lambda>((r2, c2), w2). Inr (r1, r2, dispatched w2, promises w2 ''posts''))) =
   Inr (Prom (Dispatched 0), Prom (Dispatched 1),
        [StartQuest ''posts'' (BoundGet (User 0) (JObj [(''query'', JNull)])),
         StartQuest ''posts'' (BoundGet (User 0) (JObj [(''query'', JNull)]))],
        Some (Chained (Dispatched 1) ''posts''))"
proof -
  have fs: "truthy (fetchOnServer posts_config)" and fo: "\<not> truthy (fetchOnce posts_config)"
    by (simp_all add: posts_config_def)
  have rec: "member (JObj [(''posts'', loading_record)]) (key posts_config) =
      JObj [(''loading'', JBool True), (''completed'', JBool False),
            (''error'', JNull), (''data'', JNull)]"
    by (simp add: posts_config_def loading_record_def)
  have rd: "\<not> truthy (member (JObj [(''loading'', JBool True), (''completed'', JBool False),
            (''error'', JNull), (''data'', JNull)]) ''ready'')"
    by simp
  show ?thesis
    using fetch_gate_ignores_inflight [OF quest_posts fs fo rec rd, of fresh_host "JObj []"
        "\<lparr>fetched = False\<rparr>" inflight_world]
    by (simp add: scenario_defs)
qed

text \<open>
  Claim C7.  With the default options, the record loading and a promise registered for
  the key, \<^verbatim>\<open>componentWillMount\<close> does not return the registered promise: it
  dispatches a new fetch and returns what that dispatch returned.
\<close>

theorem loading_mount_starts_new_fetch:
  "promises inflight_world ''posts'' = Some (Chained (Dispatched 0) ''posts'') \<and>
   js_get loading_record ''loading'' = Inr (JBool True) \<and>
   returned (componentWillMount posts_config fresh_host (JObj [])
       (JObj [(''posts'', loading_record)]) \<lparr>fetched = False\<rparr> inflight_world) =
     Inr (Prom (Dispatched 1)) \<and>
   log_after (componentWillMount posts_config fresh_host (JObj [])
       (JObj [(''posts'', loading_record)]) \<lparr>fetched = False\<rparr> inflight_world) =
     Inr (dispatched inflight_world @
            [StartQuest ''posts'' (BoundGet (User 0) (JObj [(''query'', JNull)]))])"
  by (simp add: scenario_defs)

subsection \<open>Programmatic methods\<close>

text \<open>
  Claim C5.  For every configuration that \<^verbatim>\<open>quest\<close> returns, the mapper given to
  \<^verbatim>\<open>withProps\<close> returns the empty object: the filter tests the type of each property
  name, which is never \<^verbatim>\<open>'function'\<close>, so no resolver method is exposed on the key
  prop.
\<close>

theorem no_method_is_exposed:
  assumes "quest opts = Inr cfg"
  shows "programmatic_methods cfg props = Inr []"
proof -
  from quest_valid [OF assms] obtain ms where "resolver cfg = JObj ms" by blast
  then show ?thesis
    by (simp add: programmatic_methods_def object_keys_def bindE_def)
qed

theorem no_method_is_exposed_witness:
  "member postsResolver ''create'' = JFun (User 1) \<and>
   programmatic_methods posts_config (JObj [(''posts'', defaultState)]) = Inr []"
  using no_method_is_exposed [OF quest_posts, of "JObj [(''posts'', defaultState)]"]
  by (simp add: postsResolver_def)

subsection \<open>The legacy component's prop names\<close>

lemma capitalize_cons: "capitalize up (c # cs) = Inr (up [c] @ cs)"
  by (simp add: capitalize_def)

lemma fold_bindE_error:
  "fold (\<lambda>x result. bindE result (g x)) xs (Inl e) = Inl e"
  by (induction xs) (simp_all add: bindE_simps)

lemma method_props_empty_key:
  "method_props up methods [] = (if methods = [] then Inr [] else Inl TypeError)"
proof (cases methods)
  case Nil
  then show ?thesis by (simp add: method_props_def)
next
  case (Cons m ms)
  have "method_props up (m # ms) [] =
      fold (\<lambda>method result.
             bindE result (\<lambda>acc.
             bindE (capitalize up []) (\<lambda>ck.
             Inr (AList.update (method @ ck) (CallsResolver method) acc)))) ms (Inl TypeError)"
    by (simp add: method_props_def capitalize_def bindE_simps)
  also have "\<dots> = Inl TypeError"
    by (rule fold_bindE_error)
  finally show ?thesis using Cons by simp
qed

lemma method_props_names:
  "\<exists>ps. fold (\<lambda>method result.
             bindE result (\<lambda>acc.
             bindE (capitalize up (c # cs)) (\<lambda>ck.
             Inr (AList.update (method @ ck) (CallsResolver method) acc)))) methods (Inr acc0) = Inr ps \<and>
        fst ` set ps = fst ` set acc0 \<union> (\<lambda>m. m @ up [c] @ cs) ` set methods"
proof (induction methods arbitrary: acc0)
  case Nil
  then show ?case by simp
next
  case (Cons m methods)
  from Cons [of "AList.update (m @ up [c] @ cs) (CallsResolver m) acc0"]
  show ?case
    by (auto simp: bindE_simps capitalize_cons dom_update)
qed

text \<open>
  Claim C10.  In \<^verbatim>\<open>withData\<close> the construction of the programmatic props throws
  exactly when the key is the empty string; for a non-empty key it succeeds and the
  names of the props are \<^verbatim>\<open>get\<close> and every method name, each followed by the key with
  its first character upper-cased.
\<close>

theorem withData_prop_names:
  "isl (withData_props up methods k) = (k = []) \<and>
   withData_props up methods [] = Inl TypeError \<and>
   (\<exists>ps. withData_props up methods (c # cs) = Inr ps \<and>
      fst ` set ps = insert (''get'' @ up [c] @ cs) ((\<lambda>m. m @ up [c] @ cs) ` set methods))"
proof -
  have e: "withData_props up methods [] = Inl TypeError"
    by (simp add: withData_props_def get_prop_def method_props_empty_key bindE_simps
        capitalize_def)
  have n: "\<exists>ps. withData_props up methods (c' # cs') = Inr ps \<and>
      fst ` set ps = insert (''get'' @ up [c'] @ cs') ((\<lambda>m. m @ up [c'] @ cs') ` set methods)"
    for c' cs'
  proof -
    obtain ps where ps: "method_props up methods (c' # cs') = Inr ps"
      and names: "fst ` set ps = (\<lambda>m. m @ up [c'] @ cs') ` set methods"
      using method_props_names [of up c' cs' methods "[]"]
      unfolding method_props_def by auto
    have "withData_props up methods (c' # cs') =
        Inr (AList.update (''get'' @ up [c'] @ cs') CallsUpdate ps)"
      by (simp only: withData_props_def ps get_prop_def capitalize_cons bindE_simps
          fold_simps prod.case id_apply comp_apply)
    moreover have "fst ` set (AList.update (''get'' @ up [c'] @ cs') CallsUpdate ps) =
        insert (''get'' @ up [c'] @ cs') ((\<lambda>m. m @ up [c'] @ cs') ` set methods)"
      by (simp only: dom_update names insert_is_Un [symmetric])
    ultimately show ?thesis by blast
  qed
  have "isl (withData_props up methods k) = (k = [])"
  proof (cases k)
    case Nil
    with e show ?thesis by simp
  next
    case (Cons c' cs')
    from n [of c' cs'] obtain ps where "withData_props up methods (c' # cs') = Inr ps"
      by blast
    with Cons show ?thesis by simp
  qed
  with e n show ?thesis by blast
qed

theorem withData_prop_names_example:
  "withData_props ascii_toUpperCase [''key'', ''get'', ''create''] ''posts'' =
     Inr [(''keyPosts'', CallsResolver ''key''), (''getPosts'', CallsUpdate),
          (''createPosts'', CallsResolver ''create'')] \<and>
   withData_props ascii_toUpperCase [''key'', ''get'', ''create''] [] = Inl TypeError"
proof -
  have ex: "withData_props ascii_toUpperCase [''key'', ''get'', ''create''] ''posts'' =
     Inr [(''keyPosts'', CallsResolver ''key''), (''getPosts'', CallsUpdate),
          (''createPosts'', CallsResolver ''create'')]"
    by code_simp
  have e: "withData_props ascii_toUpperCase [''key'', ''get'', ''create''] [] = Inl TypeError"
    by (rule withData_prop_names [THEN conjunct2, THEN conjunct1])
  from ex e show ?thesis ..
qed

end
